theory Spec2Isabelle
  imports Complex_Main
begin

section \<open>Characters and strings of the Python runtime\<close>

text \<open>
  A prompt is a Python \<open>str\<close>. The model reads a \<^typ>\<open>char\<close> as the code point of the
  same number, so a \<^typ>\<open>string\<close> is a Python string whose code points are all below
  256. The character classes below are those of Python's \<open>re\<close> module for \<open>str\<close>
  patterns (Unicode matching) on that range, and \<open>py_lower\<close> is \<open>str.lower\<close> on it.
\<close>

definition code_point :: "char \<Rightarrow> nat" where
  "code_point c = of_char c"

definition in_range :: "nat \<Rightarrow> nat \<Rightarrow> char \<Rightarrow> bool" where
  "in_range lo hi c = (lo \<le> code_point c \<and> code_point c \<le> hi)"

text \<open>\<open>\s\<close>: tab to carriage return, the separators 28 to 31, space, NEL and NBSP.\<close>

definition is_space :: "char \<Rightarrow> bool" where
  "is_space c = (in_range 9 13 c \<or> in_range 28 32 c \<or> code_point c = 133 \<or> code_point c = 160)"

text \<open>\<open>\d\<close>: the decimal digits; below 256 these are \<open>0\<close> to \<open>9\<close> only.\<close>

definition is_digit :: "char \<Rightarrow> bool" where
  "is_digit c = in_range 48 57 c"

text \<open>\<open>\w\<close>: the alphanumeric characters and the underscore.\<close>

definition is_word :: "char \<Rightarrow> bool" where
  "is_word c = (in_range 48 57 c \<or> in_range 65 90 c \<or> code_point c = 95 \<or> in_range 97 122 c
     \<or> code_point c = 170 \<or> in_range 178 179 c \<or> code_point c = 181 \<or> in_range 185 186 c
     \<or> in_range 188 190 c \<or> in_range 192 214 c \<or> in_range 216 246 c \<or> in_range 248 255 c)"

text \<open>\<open>str.lower\<close>: the upper-case letters move up by 32, everything else stays.\<close>

definition py_lower_char :: "char \<Rightarrow> char" where
  "py_lower_char c =
     (if in_range 65 90 c \<or> in_range 192 214 c \<or> in_range 216 222 c
      then char_of (code_point c + 32) else c)"

definition py_lower :: "string \<Rightarrow> string" where
  "py_lower s = map py_lower_char s"

text \<open>\<open>w in s\<close> on strings: \<open>w\<close> occurs in \<open>s\<close> as a contiguous substring.\<close>

fun starts_with :: "string \<Rightarrow> string \<Rightarrow> bool" where
  "starts_with [] s = True"
| "starts_with (a # w) [] = False"
| "starts_with (a # w) (c # s) = (a = c \<and> starts_with w s)"

fun py_in :: "string \<Rightarrow> string \<Rightarrow> bool" where
  "py_in w [] = (w = [])"
| "py_in w (c # s) = (starts_with w (c # s) \<or> py_in w s)"

text \<open>\<open>any(word in s for word in words)\<close>.\<close>

fun any_in :: "string list \<Rightarrow> string \<Rightarrow> bool" where
  "any_in [] s = False"
| "any_in (w # ws) s = (py_in w s \<or> any_in ws s)"

section \<open>Regular expressions: \<open>re.search\<close>\<close>

text \<open>
  Every pattern of \<open>parse_ai_prompt\<close> is a sequence of items: a literal character, or a
  character class under a greedy quantifier, some of them inside a capturing group.
  None uses alternation, a lazy quantifier or a nested group.
\<close>

datatype cclass =
    Lit char      \<comment> \<open>a literal character\<close>
  | Space         \<comment> \<open>\<open>\s\<close>\<close>
  | DigitDot      \<comment> \<open>\<open>[\d.]\<close>\<close>
  | Word          \<comment> \<open>\<open>\w\<close>\<close>
  | Dot           \<comment> \<open>\<open>.\<close>: any character but the newline\<close>

datatype quant = Once | Plus | Star

datatype item =
    Plain cclass quant      \<comment> \<open>outside a group\<close>
  | Capture cclass quant    \<comment> \<open>\<open>(...)\<close>, a capturing group\<close>

type_synonym pattern = "item list"

fun in_class :: "cclass \<Rightarrow> char \<Rightarrow> bool" where
  "in_class (Lit a) c = (c = a)"
| "in_class Space c = is_space c"
| "in_class DigitDot c = (is_digit c \<or> c = CHR ''.'')"
| "in_class Word c = is_word c"
| "in_class Dot c = (code_point c \<noteq> 10)"

text \<open>
  The numbers of characters a quantified class may take at the head of \<open>s\<close>, in the
  order a backtracking matcher tries them: a greedy quantifier takes the longest run
  first and gives characters back one at a time.
\<close>

definition run_lengths :: "cclass \<Rightarrow> quant \<Rightarrow> string \<Rightarrow> nat list" where
  "run_lengths cl q s =
     (let n = length (takeWhile (in_class cl) s) in
      case q of
        Once \<Rightarrow> (if 1 \<le> n then [1] else [])
      | Plus \<Rightarrow> rev [1..<Suc n]
      | Star \<Rightarrow> rev [0..<Suc n])"

fun first_some :: "'a option list \<Rightarrow> 'a option" where
  "first_some [] = None"
| "first_some (None # xs) = first_some xs"
| "first_some (Some x # xs) = Some x"

text \<open>
  \<open>match_here pat s\<close>: the pattern matches a prefix of \<open>s\<close>; the result is
  \<open>match.groups()\<close>, the captured texts in the order of the groups.
\<close>

fun match_here :: "pattern \<Rightarrow> string \<Rightarrow> string list option" where
  "match_here [] s = Some []"
| "match_here (Plain cl q # its) s =
     first_some (map (\<lambda>k. match_here its (drop k s)) (run_lengths cl q s))"
| "match_here (Capture cl q # its) s =
     first_some (map (\<lambda>k. map_option ((#) (take k s)) (match_here its (drop k s)))
                     (run_lengths cl q s))"

text \<open>\<open>re.search\<close>: the match at the leftmost position of \<open>s\<close> that has one.\<close>

fun re_search :: "pattern \<Rightarrow> string \<Rightarrow> string list option" where
  "re_search pat [] = match_here pat []"
| "re_search pat (c # s) =
     (case match_here pat (c # s) of Some g \<Rightarrow> Some g | None \<Rightarrow> re_search pat s)"

definition lit :: "string \<Rightarrow> pattern" where
  "lit w = map (\<lambda>c. Plain (Lit c) Once) w"

abbreviation spaces :: "pattern" where
  "spaces \<equiv> [Plain Space Plus]"

abbreviation num_group :: "pattern" where
  "num_group \<equiv> [Capture DigitDot Plus]"

abbreviation word_group :: "pattern" where
  "word_group \<equiv> [Capture Word Plus]"

abbreviation any_run :: "pattern" where
  "any_run \<equiv> [Plain Dot Star]"

section \<open>Python numbers\<close>

text \<open>
  The exceptions of the model: \<open>ValueError\<close> from \<open>float\<close>, \<open>IndexError\<close> from
  \<open>match.group(1)\<close> on a pattern without a group, \<open>OverflowError\<close> from the conversion
  of an integer too large for a float, \<open>ZeroDivisionError\<close>, \<open>ConfigError\<close> for a
  configuration file that is missing or is not JSON, \<open>KeyError\<close> for a key the
  configuration lacks, \<open>LedgerError\<close> for a ledger file that cannot be read as an
  income log.
\<close>

datatype error =
  ValueError | IndexError | OverflowError | ZeroDivisionError | ConfigError | KeyError | LedgerError

text \<open>
  A Python float is an IEEE 754 binary64 number: a finite value (a rational that has
  53 significant bits; \<open>Finite 0\<close> is \<open>0.0\<close>), the negative zero, an infinity or NaN.
\<close>

datatype pyfloat = Finite rat | NegZero | PosInf | NegInf | NaN

definition pow2 :: "int \<Rightarrow> rat" where
  "pow2 k = (if 0 \<le> k then 2 ^ nat k else 1 / 2 ^ nat (- k))"

text \<open>The number of binary digits of a positive integer.\<close>

function bit_length :: "int \<Rightarrow> int" where
  "bit_length n = (if n \<le> 0 then 0 else 1 + bit_length (n div 2))"
  by pat_completeness auto
termination
  by (relation "measure nat") auto

text \<open>The binary exponent of a positive rational \<open>a\<close>: \<open>2 ^ e \<le> a < 2 ^ (e + 1)\<close>.\<close>

definition ilog2 :: "rat \<Rightarrow> int" where
  "ilog2 a =
     (let (p, q) = quotient_of a;
          d = bit_length p - bit_length q
      in if pow2 d \<le> a then d else d - 1)"

text \<open>Rounding to the nearest integer, a tie to the even one.\<close>

definition round_half_even :: "rat \<Rightarrow> int" where
  "round_half_even x =
     (let f = \<lfloor>x\<rfloor>; r = x - of_int f
      in if r < 1 / 2 then f
         else if 1 / 2 < r then f + 1
         else if even f then f else f + 1)"

text \<open>
  \<open>round64 neg a\<close>: the float nearest to the number of sign \<open>neg\<close> and magnitude
  \<open>a \<ge> 0\<close>. The spacing of the floats around \<open>a\<close> is \<open>2 ^ (e - 52)\<close>, where the
  exponent \<open>e\<close> is at least \<open>-1022\<close> (below that the numbers are subnormal); a result
  of \<open>2 ^ 1024\<close> or more (binary exponent 1024 or more) overflows to an infinity.
\<close>

definition round64 :: "bool \<Rightarrow> rat \<Rightarrow> pyfloat" where
  "round64 neg a =
     (if a = 0 then (if neg then NegZero else Finite 0)
      else
        (let e = max (ilog2 a) (- 1022);
             q = pow2 (e - 52);
             m = of_int (round_half_even (a / q)) * q
         in if m = 0 then (if neg then NegZero else Finite 0)
            else if 1024 \<le> ilog2 m then (if neg then NegInf else PosInf)
            else Finite (if neg then - m else m)))"

definition is_finite :: "pyfloat \<Rightarrow> bool" where
  "is_finite x = (case x of Finite r \<Rightarrow> True | NegZero \<Rightarrow> True | _ \<Rightarrow> False)"

definition is_zero :: "pyfloat \<Rightarrow> bool" where
  "is_zero x = (case x of Finite r \<Rightarrow> r = 0 | NegZero \<Rightarrow> True | _ \<Rightarrow> False)"

definition is_negative :: "pyfloat \<Rightarrow> bool" where
  "is_negative x = (case x of Finite r \<Rightarrow> r < 0 | NegZero \<Rightarrow> True | NegInf \<Rightarrow> True | _ \<Rightarrow> False)"

text \<open>The value of a finite float.\<close>

definition float_value :: "pyfloat \<Rightarrow> rat" where
  "float_value x = (case x of Finite r \<Rightarrow> r | _ \<Rightarrow> 0)"


text \<open>Float multiplication: the sign is the product of the signs; infinity times zero is NaN.\<close>

definition fmul :: "pyfloat \<Rightarrow> pyfloat \<Rightarrow> pyfloat" where
  "fmul x y =
     (if x = NaN \<or> y = NaN then NaN
      else
        (let neg = (is_negative x \<noteq> is_negative y)
         in if \<not> is_finite x \<or> \<not> is_finite y then
              (if is_zero x \<or> is_zero y then NaN else if neg then NegInf else PosInf)
            else round64 neg \<bar>float_value x * float_value y\<bar>))"

text \<open>Float division as Python's \<open>/\<close>: a zero divisor raises, whatever the dividend.\<close>

definition fdiv :: "pyfloat \<Rightarrow> pyfloat \<Rightarrow> error + pyfloat" where
  "fdiv x y =
     (if is_zero y then Inl ZeroDivisionError
      else if x = NaN \<or> y = NaN then Inr NaN
      else
        (let neg = (is_negative x \<noteq> is_negative y)
         in if \<not> is_finite x then
              Inr (if \<not> is_finite y then NaN else if neg then NegInf else PosInf)
            else if \<not> is_finite y then Inr (if neg then NegZero else Finite 0)
            else Inr (round64 neg \<bar>float_value x / float_value y\<bar>)))"

text \<open>A Python number: an \<open>int\<close> (unbounded) or a \<open>float\<close>.\<close>

datatype pynum = PyInt int | PyFloat pyfloat

text \<open>\<open>float(i)\<close> for an integer: the nearest float, or \<open>OverflowError\<close>.\<close>

definition int_to_float :: "int \<Rightarrow> error + pyfloat" where
  "int_to_float i =
     (case round64 (i < 0) (of_int \<bar>i\<bar>) of
        PosInf \<Rightarrow> Inl OverflowError
      | NegInf \<Rightarrow> Inl OverflowError
      | f \<Rightarrow> Inr f)"

text \<open>The operand of a float operation: an integer is converted first.\<close>

definition as_float :: "pynum \<Rightarrow> error + pyfloat" where
  "as_float x = (case x of PyInt i \<Rightarrow> int_to_float i | PyFloat f \<Rightarrow> Inr f)"


text \<open>\<open>x * y\<close>.\<close>

definition py_mul :: "pynum \<Rightarrow> pynum \<Rightarrow> error + pynum" where
  "py_mul x y =
     (case (x, y) of
        (PyInt a, PyInt b) \<Rightarrow> Inr (PyInt (a * b))
      | _ \<Rightarrow>
          (case as_float x of
             Inl e \<Rightarrow> Inl e
           | Inr a \<Rightarrow>
               (case as_float y of
                  Inl e \<Rightarrow> Inl e
                | Inr b \<Rightarrow> Inr (PyFloat (fmul a b)))))"

text \<open>
  \<open>x / y\<close>, true division: always a float. On two integers it is the exact quotient
  rounded once, and a quotient too large for a float raises \<open>OverflowError\<close>.
\<close>

definition py_div :: "pynum \<Rightarrow> pynum \<Rightarrow> error + pynum" where
  "py_div x y =
     (case (x, y) of
        (PyInt a, PyInt b) \<Rightarrow>
          if b = 0 then Inl ZeroDivisionError
          else
            (case round64 ((a < 0) \<noteq> (b < 0)) (of_int \<bar>a\<bar> / of_int \<bar>b\<bar>) of
               PosInf \<Rightarrow> Inl OverflowError
             | NegInf \<Rightarrow> Inl OverflowError
             | f \<Rightarrow> Inr (PyFloat f))
      | _ \<Rightarrow>
          (case as_float x of
             Inl e \<Rightarrow> Inl e
           | Inr a \<Rightarrow>
               (case as_float y of
                  Inl e \<Rightarrow> Inl e
                | Inr b \<Rightarrow> map_sum id PyFloat (fdiv a b))))"

text \<open>
  \<open>x == y\<close> on numbers: by value, so the two zeros are equal and an integer equals a
  float of the same value; NaN equals nothing, itself included.
\<close>

definition float_eq :: "pyfloat \<Rightarrow> pyfloat \<Rightarrow> bool" where
  "float_eq x y =
     (if x = NaN \<or> y = NaN then False
      else if is_finite x \<and> is_finite y then float_value x = float_value y
      else x = y)"

definition py_eq :: "pynum \<Rightarrow> pynum \<Rightarrow> bool" where
  "py_eq x y =
     (case (x, y) of
        (PyInt a, PyInt b) \<Rightarrow> a = b
      | (PyInt a, PyFloat g) \<Rightarrow> is_finite g \<and> float_value g = of_int a
      | (PyFloat f, PyInt b) \<Rightarrow> is_finite f \<and> float_value f = of_int b
      | (PyFloat f, PyFloat g) \<Rightarrow> float_eq f g)"



section \<open>\<open>float()\<close> on a string\<close>

definition float_space :: "char \<Rightarrow> bool" where
  "float_space c = (in_range 9 13 c \<or> code_point c = 32 \<or> code_point c = 133 \<or> code_point c = 160)"

definition strip :: "string \<Rightarrow> string" where
  "strip s = rev (dropWhile float_space (rev (dropWhile float_space s)))"

text \<open>An underscore is allowed only between two digits; \<open>prev\<close> is the character before.\<close>

fun underscores_ok :: "char \<Rightarrow> string \<Rightarrow> bool" where
  "underscores_ok prev [] = (prev \<noteq> CHR ''_'')"
| "underscores_ok prev (c # s) =
     (if c = CHR ''_'' then is_digit prev \<and> underscores_ok c s
      else if prev = CHR ''_'' then is_digit c \<and> underscores_ok c s
      else underscores_ok c s)"

definition digits_value :: "string \<Rightarrow> int" where
  "digits_value ds = foldl (\<lambda>n c. 10 * n + (int (code_point c) - 48)) 0 ds"

text \<open>The exponent part: empty, or \<open>e\<close>, an optional sign and at least one digit.\<close>

definition parse_exponent :: "string \<Rightarrow> int option" where
  "parse_exponent s =
     (case s of
        [] \<Rightarrow> Some 0
      | c # r \<Rightarrow>
          if c = CHR ''e'' \<or> c = CHR ''E'' then
            (let (neg, ds) = (case r of
                                [] \<Rightarrow> (False, [])
                              | d # r' \<Rightarrow> if d = CHR ''-'' then (True, r')
                                          else if d = CHR ''+'' then (False, r')
                                          else (False, r))
             in if ds \<noteq> [] \<and> list_all is_digit ds
                then Some (if neg then - digits_value ds else digits_value ds)
                else None)
          else None)"

definition scale :: "rat \<Rightarrow> int \<Rightarrow> rat" where
  "scale m e = (if 0 \<le> e then m * 10 ^ nat e else m / 10 ^ nat (- e))"

text \<open>An unsigned decimal literal: digits, an optional point and digits, an exponent.\<close>

definition parse_decimal :: "string \<Rightarrow> rat option" where
  "parse_decimal s =
     (let ip = takeWhile is_digit s;
          r1 = dropWhile is_digit s;
          has_point = (r1 \<noteq> [] \<and> hd r1 = CHR ''.'');
          fp = (if has_point then takeWhile is_digit (tl r1) else []);
          r2 = (if has_point then dropWhile is_digit (tl r1) else r1)
      in if ip = [] \<and> fp = [] then None
         else (case parse_exponent r2 of
                 None \<Rightarrow> None
               | Some e \<Rightarrow>
                   Some (scale (of_int (digits_value (ip @ fp)) / 10 ^ length fp) e)))"

text \<open>What an unsigned literal denotes: an infinity, NaN or a decimal number.\<close>

datatype literal = LitInf | LitNaN | LitDec rat

definition parse_unsigned :: "string \<Rightarrow> literal option" where
  "parse_unsigned s =
     (if py_lower s = ''inf'' \<or> py_lower s = ''infinity'' then Some LitInf
      else if py_lower s = ''nan'' then Some LitNaN
      else map_option LitDec (parse_decimal s))"

text \<open>
  \<open>float(s)\<close>: surrounding whitespace is dropped, underscores between digits are
  dropped, then a sign and a literal; a decimal literal is rounded to the nearest
  float (a literal too large gives an infinity, no exception).
\<close>

definition py_float :: "string \<Rightarrow> error + pyfloat" where
  "py_float s0 =
     (let s = strip s0 in
      if \<not> underscores_ok (CHR 0x00) s then Inl ValueError
      else
        (let t = filter (\<lambda>c. c \<noteq> CHR ''_'') s;
             neg = (t \<noteq> [] \<and> hd t = CHR ''-'');
             body = (if t \<noteq> [] \<and> (hd t = CHR ''-'' \<or> hd t = CHR ''+'') then tl t else t)
         in case parse_unsigned body of
              None \<Rightarrow> Inl ValueError
            | Some LitInf \<Rightarrow> Inr (if neg then NegInf else PosInf)
            | Some LitNaN \<Rightarrow> Inr NaN
            | Some (LitDec m) \<Rightarrow> Inr (round64 neg m)))"

section \<open>The intent parser: \<open>parse_ai_prompt\<close>\<close>

text \<open>
  The returned dictionary, by its \<open>operation\<close>: \<open>Transfer from_wallet to_wallet amount\<close>,
  \<open>QueryBalance wallet_address\<close>, \<open>Stake amount wallet\<close>, \<open>IncomeReport\<close>, and
  \<open>Unknown original_prompt\<close>.
\<close>

datatype intent =
    Transfer string string pyfloat
  | QueryBalance string
  | Stake pyfloat "string option"
  | IncomeReport
  | Unknown string

definition transfer_patterns :: "pattern list" where
  "transfer_patterns =
     [ lit ''transfer'' @ spaces @ num_group @ spaces @ lit ''sol'' @ spaces @ lit ''from'' @ spaces @ word_group
         @ spaces @ lit ''to'' @ spaces @ word_group,
       lit ''send'' @ spaces @ num_group @ spaces @ lit ''sol'' @ spaces @ lit ''from'' @ spaces @ word_group
         @ spaces @ lit ''to'' @ spaces @ word_group,
       lit ''pay'' @ spaces @ word_group @ spaces @ num_group @ spaces @ lit ''sol'' @ spaces @ lit ''from'' @ spaces
         @ word_group ]"

definition balance_patterns :: "pattern list" where
  "balance_patterns =
     [ lit ''balance'' @ spaces @ lit ''of'' @ spaces @ word_group,
       lit ''what'' @ any_run @ lit ''balance'' @ any_run @ word_group,
       lit ''check'' @ spaces @ lit ''balance'' @ spaces @ word_group,
       lit ''how'' @ spaces @ lit ''much'' @ any_run @ word_group ]"

definition staking_patterns :: "pattern list" where
  "staking_patterns =
     [ lit ''stake'' @ spaces @ num_group @ spaces @ lit ''sol'' @ spaces @ lit ''from'' @ spaces @ word_group,
       lit ''stake'' @ spaces @ num_group @ spaces @ lit ''sol'',
       lit ''create'' @ any_run @ lit ''passive'' @ any_run @ lit ''income'' @ any_run
         @ lit ''with'' @ spaces @ num_group @ spaces @ lit ''sol'',
       lit ''start'' @ spaces @ lit ''staking'' @ spaces @ num_group @ spaces @ lit ''sol'' ]"

text \<open>
  The three loops over the pattern lists. \<open>None\<close>: the loop ended without a
  \<open>return\<close>. \<open>Some (Inl e)\<close>: \<open>float\<close> raised inside the loop.
\<close>

fun transfer_loop :: "pattern list \<Rightarrow> string \<Rightarrow> (error + intent) option" where
  "transfer_loop [] l = None"
| "transfer_loop (pat # pats) l =
     (case re_search pat l of
        None \<Rightarrow> transfer_loop pats l
      | Some groups \<Rightarrow>
          if length groups = 3 then
            (let amount = groups ! 0; from_wallet = groups ! 1; to_wallet = groups ! 2
             in case py_float amount of
                  Inl e \<Rightarrow> Some (Inl e)
                | Inr a \<Rightarrow> Some (Inr (Transfer from_wallet to_wallet a)))
          else transfer_loop pats l)"

fun balance_loop :: "pattern list \<Rightarrow> string \<Rightarrow> (error + intent) option" where
  "balance_loop [] l = None"
| "balance_loop (pat # pats) l =
     (case re_search pat l of
        None \<Rightarrow> balance_loop pats l
      | Some groups \<Rightarrow>
          (case groups of
             [] \<Rightarrow> Some (Inl IndexError)
           | wallet # _ \<Rightarrow> Some (Inr (QueryBalance wallet))))"

fun staking_loop :: "pattern list \<Rightarrow> string \<Rightarrow> (error + intent) option" where
  "staking_loop [] l = None"
| "staking_loop (pat # pats) l =
     (case re_search pat l of
        None \<Rightarrow> staking_loop pats l
      | Some groups \<Rightarrow>
          if 1 \<le> length groups then
            (let amount = groups ! 0;
                 wallet = (if 1 < length groups then Some (groups ! 1) else None)
             in case py_float amount of
                  Inl e \<Rightarrow> Some (Inl e)
                | Inr a \<Rightarrow> Some (Inr (Stake a wallet)))
          else staking_loop pats l)"

definition report_words :: "string list" where
  "report_words = [''report'', ''income'', ''earnings'', ''revenue'']"

definition passive_words :: "string list" where
  "passive_words = [''passive'', ''total'', ''generated'']"

definition parse_ai_prompt :: "string \<Rightarrow> error + intent" where
  "parse_ai_prompt prompt_text =
     (let prompt_text_lower = py_lower prompt_text in
      case transfer_loop transfer_patterns prompt_text_lower of
        Some r \<Rightarrow> r
      | None \<Rightarrow>
     (case balance_loop balance_patterns prompt_text_lower of
        Some r \<Rightarrow> r
      | None \<Rightarrow>
     (case staking_loop staking_patterns prompt_text_lower of
        Some r \<Rightarrow> r
      | None \<Rightarrow>
          if any_in report_words prompt_text_lower then
            (if any_in passive_words prompt_text_lower then Inr IncomeReport
             else Inr (Unknown prompt_text))
          else Inr (Unknown prompt_text))))"

section \<open>Configuration, the income ledger and the operation stubs\<close>

text \<open>
  The two JSON files are the state the scripts share. A file is absent, unreadable as
  the document the code expects, or holds such a document. Amounts are Python numbers.
\<close>

datatype 'a json_file = Absent | Corrupt | Content 'a

text \<open>
  \<open>system-config.json\<close>: \<open>devVaultWallet\<close> and
  \<open>feeStructure.passiveIncomePercentage\<close>, each \<open>None\<close> when the key is missing.
\<close>

record system_config =
  devVaultWallet :: "string option"
  passiveIncomePercentage :: "pynum option"

text \<open>A transaction record is a dictionary: a key it lacks is \<open>None\<close>.\<close>

record transaction =
  tx_type :: "string option"
  tx_amount :: "pynum option"
  tx_wallet :: "string option"
  tx_dev_vault :: "string option"
  tx_status :: "string option"
  tx_timestamp :: "string option"

record income_log =
  transactions :: "transaction list"
  total_income :: pynum

record world =
  config_file :: "system_config json_file"
  ledger_file :: "income_log json_file"

text \<open>
  Built-in functions of the Python process that the stubs call: \<open>hash\<close> on a string
  (salted per process), \<open>str\<close> on a number and on an integer.
\<close>

record builtins =
  py_hash :: "string \<Rightarrow> int"
  str_num :: "pynum \<Rightarrow> string"
  str_int :: "int \<Rightarrow> string"

definition load_config :: "world \<Rightarrow> error + system_config" where
  "load_config w =
     (case config_file w of
        Absent \<Rightarrow> Inl ConfigError
      | Corrupt \<Rightarrow> Inl ConfigError
      | Content config \<Rightarrow> Inr config)"

text \<open>\<open>transaction_data.get('amount', 0)\<close>.\<close>

definition get_amount :: "transaction \<Rightarrow> pynum" where
  "get_amount t = (case tx_amount t of None \<Rightarrow> PyInt 0 | Some a \<Rightarrow> a)"


text \<open>
  \<open>transfer_sol\<close>. The fee is \<open>amount * (percentage / 100)\<close>: the quotient is computed
  (and rounded) first, then the product.
\<close>

record transfer_result =
  tr_status :: string
  tr_operation :: string
  tr_from :: string
  tr_to :: string
  tr_amount :: pynum
  tr_dev_vault :: string
  dev_vault_amount :: pynum
  tr_network :: string
  tr_signature :: string
  tr_instructions :: "string list"

definition transfer_sol ::
    "builtins \<Rightarrow> string \<Rightarrow> string \<Rightarrow> pynum \<Rightarrow> string \<Rightarrow> string \<Rightarrow> world
       \<Rightarrow> (error + transfer_result) \<times> world" where
  "transfer_sol rt from_wallet to_wallet amount private_key network w =
     (case load_config w of
        Inl e \<Rightarrow> (Inl e, w)
      | Inr config \<Rightarrow>
     (case devVaultWallet config of
        None \<Rightarrow> (Inl KeyError, w)
      | Some dev_vault \<Rightarrow>
     (case passiveIncomePercentage config of
        None \<Rightarrow> (Inl KeyError, w)
      | Some percentage \<Rightarrow>
     (case py_div percentage (PyInt 100) of
        Inl e \<Rightarrow> (Inl e, w)
      | Inr share \<Rightarrow>
     (case py_mul amount share of
        Inl e \<Rightarrow> (Inl e, w)
      | Inr fee \<Rightarrow>
          (Inr \<lparr> tr_status = ''success'',
                 tr_operation = ''transfer_sol'',
                 tr_from = from_wallet,
                 tr_to = to_wallet,
                 tr_amount = amount,
                 tr_dev_vault = dev_vault,
                 dev_vault_amount = fee,
                 tr_network = network,
                 tr_signature = ''SIMULATED_SIGNATURE_''
                    @ str_int rt (py_hash rt (from_wallet @ to_wallet @ str_num rt amount)),
                 tr_instructions =
                   [ ''1. Create transaction transferring '' @ str_num rt amount @ '' SOL from ''
                       @ from_wallet @ '' to '' @ to_wallet,
                     ''2. All proceeds ('' @ str_num rt amount @ '' SOL) directed to dev vault: ''
                       @ dev_vault,
                     ''3. Sign transaction with provided private key'',
                     ''4. Submit to Solana network'',
                     ''5. Wait for confirmation'' ] \<rparr>,
           w))))))"





text \<open>\<open>xs[-n:]\<close> for a positive \<open>n\<close>.\<close>

definition last_n :: "nat \<Rightarrow> 'a list \<Rightarrow> 'a list" where
  "last_n n xs = (if length xs \<le> n then xs else drop (length xs - n) xs)"

record strategies =
  staking :: nat
  token_fees :: nat
  other :: nat

text \<open>
  The report is a dictionary whose keys differ between the two branches: a key the
  returned dictionary does not have is \<open>None\<close>.
\<close>

record income_report =
  rp_total_income :: pynum
  rp_transaction_count :: nat
  rp_transactions :: "transaction list option"
  recent_transactions :: "transaction list option"
  rp_strategies :: "strategies option"

definition get_income_report :: "world \<Rightarrow> error + income_report" where
  "get_income_report w =
     (case ledger_file w of
        Absent \<Rightarrow>
          Inr \<lparr> rp_total_income = PyInt 0,
                rp_transaction_count = 0,
                rp_transactions = Some [],
                recent_transactions = None,
                rp_strategies = None \<rparr>
      | Corrupt \<Rightarrow> Inl LedgerError
      | Content ledger \<Rightarrow>
          Inr \<lparr> rp_total_income = total_income ledger,
                rp_transaction_count = length (transactions ledger),
                rp_transactions = None,
                recent_transactions = Some (last_n 10 (transactions ledger)),
                rp_strategies = Some
                  \<lparr> staking = length (filter (\<lambda>t. tx_type t = Some ''staking'') (transactions ledger)),
                    token_fees = length (filter (\<lambda>t. tx_type t = Some ''token_fees'') (transactions ledger)),
                    other = length (filter (\<lambda>t. tx_type t \<noteq> Some ''staking''
                                                  \<and> tx_type t \<noteq> Some ''token_fees'')
                                           (transactions ledger)) \<rparr> \<rparr>)"


section \<open>Notions used to state the properties\<close>


text \<open>The record a call stores: the caller's record with the time of the call.\<close>

definition stamp :: "string \<times> transaction \<Rightarrow> transaction" where
  "stamp c = (snd c)\<lparr>tx_timestamp := Some (fst c)\<rparr>"



text \<open>Some pattern of the list has a match somewhere in \<open>l\<close>.\<close>

definition matches_any :: "pattern list \<Rightarrow> string \<Rightarrow> bool" where
  "matches_any pats l = list_ex (\<lambda>pat. re_search pat l \<noteq> None) pats"

text \<open>The \<open>operation\<close> field of an intent.\<close>

datatype operation = OpTransfer | OpQueryBalance | OpStake | OpIncomeReport | OpUnknown

fun operation_of :: "intent \<Rightarrow> operation" where
  "operation_of (Transfer f t a) = OpTransfer"
| "operation_of (QueryBalance a) = OpQueryBalance"
| "operation_of (Stake a w) = OpStake"
| "operation_of IncomeReport = OpIncomeReport"
| "operation_of (Unknown p) = OpUnknown"

text \<open>
  The specification's priority order, in its own words: the first category, in the
  order transfer, balance, stake, income report, whose pattern (or keyword test)
  matches the lower-cased prompt; unknown when none does.
\<close>

definition spec_first_category :: "string \<Rightarrow> operation" where
  "spec_first_category l =
     (if matches_any transfer_patterns l then OpTransfer
      else if matches_any balance_patterns l then OpQueryBalance
      else if matches_any staking_patterns l then OpStake
      else if any_in report_words l \<and> any_in passive_words l then OpIncomeReport
      else OpUnknown)"

text \<open>The number of capturing groups of a pattern.\<close>

fun n_groups :: "pattern \<Rightarrow> nat" where
  "n_groups [] = 0"
| "n_groups (Plain cl q # its) = n_groups its"
| "n_groups (Capture cl q # its) = Suc (n_groups its)"

text \<open>The groups of the first pattern of the list that has a match in \<open>l\<close>.\<close>

fun first_groups :: "pattern list \<Rightarrow> string \<Rightarrow> string list option" where
  "first_groups [] l = None"
| "first_groups (pat # pats) l =
     (case re_search pat l of Some groups \<Rightarrow> Some groups | None \<Rightarrow> first_groups pats l)"

text \<open>
  The tokens of a text: its maximal runs of word characters, from left to right
  (\<open>cur\<close> is the run being read).
\<close>

fun tokens_from :: "string \<Rightarrow> string \<Rightarrow> string list" where
  "tokens_from cur [] = (if cur = [] then [] else [cur])"
| "tokens_from cur (c # s) =
     (if is_word c then tokens_from (cur @ [c]) s
      else if cur = [] then tokens_from [] s
      else cur # tokens_from [] s)"

definition tokens :: "string \<Rightarrow> string list" where
  "tokens s = tokens_from [] s"

section \<open>Facts about the matcher and the three loops\<close>

lemma first_some_SomeD: "first_some xs = Some y \<Longrightarrow> Some y \<in> set xs"
  by (induction xs rule: first_some.induct) auto

lemma match_here_groups: "match_here pat s = Some gs \<Longrightarrow> length gs = n_groups pat"
proof (induction pat arbitrary: s gs)
  case Nil
  then show ?case by simp
next
  case (Cons it its)
  show ?case
  proof (cases it)
    case (Plain cl q)
    with Cons.prems have "Some gs \<in> set (map (\<lambda>k. match_here its (drop k s)) (run_lengths cl q s))"
      by (auto dest: first_some_SomeD)
    then obtain k where "match_here its (drop k s) = Some gs" by auto
    with Cons.IH Plain show ?thesis by simp
  next
    case (Capture cl q)
    with Cons.prems have "Some gs \<in> set (map (\<lambda>k. map_option ((#) (take k s)) (match_here its (drop k s))) (run_lengths cl q s))"
      by (auto dest: first_some_SomeD)
    then obtain k where "Some gs = map_option ((#) (take k s)) (match_here its (drop k s))"
      by auto
    then obtain gs' where "match_here its (drop k s) = Some gs'" "gs = take k s # gs'"
      by (cases "match_here its (drop k s)") auto
    with Cons.IH Capture show ?thesis by simp
  qed
qed

lemma re_search_groups: "re_search pat s = Some gs \<Longrightarrow> length gs = n_groups pat"
  by (induction s) (auto split: option.splits dest: match_here_groups)

lemma n_groups_append: "n_groups (a @ b) = n_groups a + n_groups b"
  by (induction a rule: n_groups.induct) auto

lemma n_groups_lit: "n_groups (lit w) = 0"
  by (induction w) (auto simp: lit_def)

lemma transfer_patterns_groups: "\<forall>pat\<in>set transfer_patterns. n_groups pat = 3"
  by (simp add: transfer_patterns_def n_groups_append n_groups_lit)

lemma balance_patterns_groups: "\<forall>pat\<in>set balance_patterns. n_groups pat = 1"
  by (simp add: balance_patterns_def n_groups_append n_groups_lit)

lemma staking_patterns_groups: "\<forall>pat\<in>set staking_patterns. 1 \<le> n_groups pat"
  by (simp add: staking_patterns_def n_groups_append n_groups_lit)

lemma py_float_error: "py_float s = Inl e \<Longrightarrow> e = ValueError"
  by (auto simp: py_float_def Let_def split: if_splits option.splits literal.splits)

lemma transfer_loop_None: "\<not> matches_any pats l \<Longrightarrow> transfer_loop pats l = None"
  by (induction pats) (auto simp: matches_any_def)

lemma balance_loop_None: "\<not> matches_any pats l \<Longrightarrow> balance_loop pats l = None"
  by (induction pats) (auto simp: matches_any_def)

lemma staking_loop_None: "\<not> matches_any pats l \<Longrightarrow> staking_loop pats l = None"
  by (induction pats) (auto simp: matches_any_def)

lemma transfer_loop_Some:
  "matches_any pats l \<Longrightarrow> \<forall>pat\<in>set pats. n_groups pat = 3 \<Longrightarrow>
   \<exists>r. transfer_loop pats l = Some r \<and> (r = Inl ValueError \<or> (\<exists>f t a. r = Inr (Transfer f t a)))"
proof (induction pats)
  case Nil
  then show ?case by (simp add: matches_any_def)
next
  case (Cons pat pats)
  show ?case
  proof (cases "re_search pat l")
    case None
    with Cons show ?thesis by (simp add: matches_any_def)
  next
    case (Some gs)
    with Cons.prems(2) have "length gs = 3" by (auto dest: re_search_groups)
    with Some show ?thesis
      by (auto simp: Let_def split: sum.splits dest: py_float_error)
  qed
qed

lemma balance_loop_Some:
  "matches_any pats l \<Longrightarrow> \<forall>pat\<in>set pats. n_groups pat = 1 \<Longrightarrow>
   \<exists>a. balance_loop pats l = Some (Inr (QueryBalance a))"
proof (induction pats)
  case Nil
  then show ?case by (simp add: matches_any_def)
next
  case (Cons pat pats)
  show ?case
  proof (cases "re_search pat l")
    case None
    with Cons show ?thesis by (simp add: matches_any_def)
  next
    case (Some gs)
    with Cons.prems(2) have "length gs = 1" by (auto dest: re_search_groups)
    with Some show ?thesis
      by (cases gs) auto
  qed
qed

lemma staking_loop_Some:
  "matches_any pats l \<Longrightarrow> \<forall>pat\<in>set pats. 1 \<le> n_groups pat \<Longrightarrow>
   \<exists>r. staking_loop pats l = Some r \<and> (r = Inl ValueError \<or> (\<exists>a w. r = Inr (Stake a w)))"
proof (induction pats)
  case Nil
  then show ?case by (simp add: matches_any_def)
next
  case (Cons pat pats)
  show ?case
  proof (cases "re_search pat l")
    case None
    with Cons show ?thesis by (simp add: matches_any_def)
  next
    case (Some gs)
    with Cons.prems(2) have "1 \<le> length gs" by (auto dest: re_search_groups)
    with Some show ?thesis
      by (auto simp: Let_def split: sum.splits dest: py_float_error)
  qed
qed

lemma starts_with_iff: "starts_with w s \<longleftrightarrow> (\<exists>suf. s = w @ suf)"
  by (induction w s rule: starts_with.induct) auto

lemma py_in_iff: "py_in w s \<longleftrightarrow> (\<exists>pre suf. s = pre @ w @ suf)"
proof (induction s)
  case Nil
  then show ?case by auto
next
  case (Cons c s)
  have "(\<exists>pre suf. c # s = pre @ w @ suf) \<longleftrightarrow> (\<exists>suf. c # s = w @ suf) \<or> (\<exists>pre suf. s = pre @ w @ suf)"
  proof
    assume "\<exists>pre suf. c # s = pre @ w @ suf"
    then obtain pre suf where e: "c # s = pre @ w @ suf" by blast
    show "(\<exists>suf. c # s = w @ suf) \<or> (\<exists>pre suf. s = pre @ w @ suf)"
    proof (cases pre)
      case Nil
      with e show ?thesis by auto
    next
      case (Cons a pre')
      with e have "s = pre' @ w @ suf" by simp
      then show ?thesis by blast
    qed
  next
    assume "(\<exists>suf. c # s = w @ suf) \<or> (\<exists>pre suf. s = pre @ w @ suf)"
    then show "\<exists>pre suf. c # s = pre @ w @ suf"
    proof
      assume "\<exists>suf. c # s = w @ suf"
      then obtain suf where "c # s = [] @ w @ suf" by auto
      then show ?thesis by blast
    next
      assume "\<exists>pre suf. s = pre @ w @ suf"
      then obtain pre suf where "c # s = (c # pre) @ w @ suf" by auto
      then show ?thesis by blast
    qed
  qed
  with Cons show ?case by (simp add: starts_with_iff)
qed

lemma any_in_iff: "any_in words s \<longleftrightarrow> (\<exists>w\<in>set words. \<exists>pre suf. s = pre @ w @ suf)"
  by (induction words) (auto simp: py_in_iff)

lemma first_groups_None: "first_groups pats l = None \<longleftrightarrow> \<not> matches_any pats l"
  by (induction pats) (auto simp: matches_any_def split: option.splits)

lemma first_groups_length:
  "first_groups pats l = Some gs \<Longrightarrow> \<exists>pat\<in>set pats. length gs = n_groups pat"
  by (induction pats) (auto split: option.splits dest: re_search_groups)

lemma transfer_loop_first:
  "\<forall>pat\<in>set pats. n_groups pat = 3 \<Longrightarrow>
   transfer_loop pats l =
     (case first_groups pats l of
        None \<Rightarrow> None
      | Some gs \<Rightarrow>
          Some (case py_float (gs ! 0) of
                  Inl e \<Rightarrow> Inl e
                | Inr a \<Rightarrow> Inr (Transfer (gs ! 1) (gs ! 2) a)))"
proof (induction pats)
  case Nil
  then show ?case by simp
next
  case (Cons pat pats)
  show ?case
  proof (cases "re_search pat l")
    case None
    with Cons show ?thesis by simp
  next
    case (Some gs)
    with Cons.prems have "length gs = 3" by (auto dest: re_search_groups)
    with Some show ?thesis by (simp add: Let_def split: sum.splits)
  qed
qed

lemma staking_loop_first:
  "\<forall>pat\<in>set pats. 1 \<le> n_groups pat \<Longrightarrow>
   staking_loop pats l =
     (case first_groups pats l of
        None \<Rightarrow> None
      | Some gs \<Rightarrow>
          Some (case py_float (gs ! 0) of
                  Inl e \<Rightarrow> Inl e
                | Inr a \<Rightarrow> Inr (Stake a (if 1 < length gs then Some (gs ! 1) else None))))"
proof (induction pats)
  case Nil
  then show ?case by simp
next
  case (Cons pat pats)
  show ?case
  proof (cases "re_search pat l")
    case None
    with Cons show ?thesis by simp
  next
    case (Some gs)
    with Cons.prems have "1 \<le> length gs" by (auto dest: re_search_groups)
    with Some show ?thesis by (simp add: Let_def split: sum.splits)
  qed
qed

text \<open>
  When \<open>parse_ai_prompt\<close> raises: exactly when \<open>float\<close> rejects the first group of the
  first matching transfer pattern, or no transfer and no balance pattern matches and
  \<open>float\<close> rejects the first group of the first matching staking pattern.
\<close>

lemma parse_raises_iff:
  "parse_ai_prompt p = Inl e \<longleftrightarrow>
     e = ValueError \<and>
     ((\<exists>gs. first_groups transfer_patterns (py_lower p) = Some gs \<and> py_float (gs ! 0) = Inl ValueError)
      \<or> (\<not> matches_any transfer_patterns (py_lower p) \<and> \<not> matches_any balance_patterns (py_lower p)
          \<and> (\<exists>gs. first_groups staking_patterns (py_lower p) = Some gs
                   \<and> py_float (gs ! 0) = Inl ValueError)))"
proof (cases "first_groups transfer_patterns (py_lower p)")
  case (Some gs)
  then have m: "matches_any transfer_patterns (py_lower p)"
    using first_groups_None[of transfer_patterns "py_lower p"] by simp
  show ?thesis
    using Some m transfer_loop_first[OF transfer_patterns_groups, of "py_lower p"]
    by (auto simp: parse_ai_prompt_def split: sum.splits dest: py_float_error)
next
  case None
  then have nt: "\<not> matches_any transfer_patterns (py_lower p)"
    using first_groups_None[of transfer_patterns "py_lower p"] by simp
  note tl = transfer_loop_None[OF nt]
  show ?thesis
  proof (cases "matches_any balance_patterns (py_lower p)")
    case True
    from balance_loop_Some[OF True balance_patterns_groups] None nt tl True
    show ?thesis by (auto simp: parse_ai_prompt_def)
  next
    case nb: False
    note bl = balance_loop_None[OF nb]
    show ?thesis
    proof (cases "first_groups staking_patterns (py_lower p)")
      case sn: None
      then have ns: "\<not> matches_any staking_patterns (py_lower p)"
        using first_groups_None[of staking_patterns "py_lower p"] by simp
      from staking_loop_None[OF ns] None nt tl nb bl sn
      show ?thesis by (auto simp: parse_ai_prompt_def Let_def)
    next
      case (Some gs)
      with None nt tl nb bl staking_loop_first[OF staking_patterns_groups, of "py_lower p"]
      show ?thesis
        by (auto simp: parse_ai_prompt_def split: sum.splits dest: py_float_error)
    qed
  qed
qed

text \<open>
  The scan order: the operation of a returned intent is the first category that
  matches, and an exception is the \<open>ValueError\<close> of \<open>float\<close> inside the transfer or the
  stake category.
\<close>

lemma parse_priority:
  "(\<forall>i. parse_ai_prompt p = Inr i \<longrightarrow> operation_of i = spec_first_category (py_lower p))
   \<and> (\<forall>e. parse_ai_prompt p = Inl e \<longrightarrow>
         e = ValueError \<and> (spec_first_category (py_lower p) = OpTransfer
                            \<or> spec_first_category (py_lower p) = OpStake))"
proof (cases "matches_any transfer_patterns (py_lower p)")
  case True
  from transfer_loop_Some[OF True transfer_patterns_groups] True
  show ?thesis by (auto simp: parse_ai_prompt_def spec_first_category_def)
next
  case nt: False
  note tl = transfer_loop_None[OF nt]
  show ?thesis
  proof (cases "matches_any balance_patterns (py_lower p)")
    case True
    from balance_loop_Some[OF True balance_patterns_groups] True nt tl
    show ?thesis by (auto simp: parse_ai_prompt_def spec_first_category_def)
  next
    case nb: False
    note bl = balance_loop_None[OF nb]
    show ?thesis
    proof (cases "matches_any staking_patterns (py_lower p)")
      case True
      from staking_loop_Some[OF True staking_patterns_groups] True nt tl nb bl
      show ?thesis by (auto simp: parse_ai_prompt_def spec_first_category_def)
    next
      case ns: False
      note sl = staking_loop_None[OF ns]
      from nt nb ns tl bl sl show ?thesis
        by (auto simp: parse_ai_prompt_def spec_first_category_def Let_def split: if_splits)
    qed
  qed
qed

section \<open>The intent parser\<close>

text \<open>
  C1. The three transfer phrasings. The loop unpacks the groups of every pattern as
  \<open>(amount, from_wallet, to_wallet)\<close>; the groups of the \<open>pay\<close> pattern come in the
  order (recipient, amount, sender). So \<open>pay bob 5 sol from alice\<close> passes
  \<open>bob\<close> to \<open>float\<close>, which raises, and \<open>pay 7 5 sol from alice\<close> yields the amount 7,
  the sender \<open>5\<close> and the recipient \<open>alice\<close>. The \<open>transfer\<close> and \<open>send\<close> phrasings are
  read as (amount, from, to).
\<close>

theorem pay_form_misread:
  "parse_ai_prompt ''pay bob 5 sol from alice'' = Inl ValueError
   \<and> parse_ai_prompt ''pay 7 5 sol from alice'' = Inr (Transfer ''5'' ''alice'' (Finite 7))
   \<and> parse_ai_prompt ''Transfer 0.5 SOL from ABC to XYZ'' = Inr (Transfer ''abc'' ''xyz'' (Finite (1 / 2)))
   \<and> parse_ai_prompt ''send 2 sol from abc to xyz'' = Inr (Transfer ''abc'' ''xyz'' (Finite 2))"
  by code_simp

text \<open>
  C2. \<open>parse_ai_prompt\<close> raises on some prompts: the class \<open>[\d.]+\<close> lets through
  captures that are not numbers (\<open>1.2.3\<close>, a lone point), and \<open>float\<close> raises
  \<open>ValueError\<close> on them. A capture without digit characters (\<open>ten\<close>) does fail the
  match and gives the unknown intent.
\<close>

theorem parse_raises_on_dotted_amount:
  "parse_ai_prompt ''transfer 1.2.3 sol from a to b'' = Inl ValueError
   \<and> parse_ai_prompt ''stake . sol'' = Inl ValueError
   \<and> parse_ai_prompt ''transfer ten sol from a to b'' = Inr (Unknown ''transfer ten sol from a to b'')"
  by code_simp

text \<open>
  C4. The categories are scanned in the order transfer, balance, stake, income
  report, unknown, and a prompt that matches two categories gets the intent of the
  higher one (the last two prompts below). The first prompt matches a transfer and a
  balance pattern, and gets no intent at all: the transfer pattern captures \<open>1.2.3\<close>
  and \<open>float\<close> raises, as in C2.
\<close>

theorem priority_transfer_raises:
  "matches_any transfer_patterns (py_lower ''transfer 1.2.3 sol from a to b, balance of x'')
   \<and> matches_any balance_patterns (py_lower ''transfer 1.2.3 sol from a to b, balance of x'')
   \<and> parse_ai_prompt ''transfer 1.2.3 sol from a to b, balance of x'' = Inl ValueError
   \<and> parse_ai_prompt ''transfer 5 sol from a to b, balance of x'' = Inr (Transfer ''a'' ''b'' (Finite 5))
   \<and> parse_ai_prompt ''stake 5 sol, what is the balance of x'' = Inr (QueryBalance ''x'')"
  by code_simp

text \<open>
  C5, as amended. A prompt that no transfer, balance or stake pattern matches is
  classified as \<open>income_report\<close> exactly when its lower-cased text contains, as a
  substring at any position, one of the words report, income, earnings, revenue and
  one of the words passive, total, generated.
\<close>

theorem income_report_keywords:
  assumes "\<not> matches_any transfer_patterns (py_lower p)"
    and "\<not> matches_any balance_patterns (py_lower p)"
    and "\<not> matches_any staking_patterns (py_lower p)"
  shows "(parse_ai_prompt p = Inr IncomeReport) \<longleftrightarrow>
           (\<exists>w\<in>set report_words. \<exists>pre suf. py_lower p = pre @ w @ suf)
         \<and> (\<exists>w\<in>set passive_words. \<exists>pre suf. py_lower p = pre @ w @ suf)"
  using transfer_loop_None[OF assms(1)] balance_loop_None[OF assms(2)] staking_loop_None[OF assms(3)]
  by (auto simp add: parse_ai_prompt_def Let_def any_in_iff)

theorem income_report_keywords_witness:
  "(\<exists>w\<in>set report_words. \<exists>pre suf. py_lower ''Show passive income report'' = pre @ w @ suf)
   \<and> (\<exists>w\<in>set passive_words. \<exists>pre suf. py_lower ''Show passive income report'' = pre @ w @ suf)"
proof -
  have h1: "\<not> matches_any transfer_patterns (py_lower ''Show passive income report'')" by code_simp
  have h2: "\<not> matches_any balance_patterns (py_lower ''Show passive income report'')" by code_simp
  have h3: "\<not> matches_any staking_patterns (py_lower ''Show passive income report'')" by code_simp
  have e: "parse_ai_prompt ''Show passive income report'' = Inr IncomeReport" by code_simp
  show ?thesis using income_report_keywords[OF h1 h2 h3] e by blast
qed

text \<open>
  Counterexample to C5 as stated: a prompt classified as \<open>income_report\<close> none of
  whose tokens is in either word set: the words occur inside its tokens.
\<close>

theorem income_report_keywords_counterexample:
  "parse_ai_prompt ''Unreported subtotals'' = Inr IncomeReport
   \<and> \<not> matches_any transfer_patterns (py_lower ''Unreported subtotals'')
   \<and> \<not> matches_any balance_patterns (py_lower ''Unreported subtotals'')
   \<and> \<not> matches_any staking_patterns (py_lower ''Unreported subtotals'')
   \<and> tokens (py_lower ''Unreported subtotals'') = [''unreported'', ''subtotals'']
   \<and> \<not> list_ex (\<lambda>t. t \<in> set report_words) (tokens (py_lower ''Unreported subtotals''))
   \<and> \<not> list_ex (\<lambda>t. t \<in> set passive_words) (tokens (py_lower ''Unreported subtotals''))"
  by code_simp

text \<open>
  C6. The patterns \<open>what.*balance.*(\w+)\<close> and \<open>how\s+much.*(\w+)\<close> capture a single
  character: the greedy \<open>.*\<close> takes the rest of the line and gives back one character
  for the group. The wallet is then the last word character, not a token of the
  prompt. The patterns without \<open>.*\<close> capture the whole token.
\<close>

theorem balance_capture_last_char:
  "parse_ai_prompt ''what balance xyz'' = Inr (QueryBalance ''z'')
   \<and> parse_ai_prompt ''how much is in xyz'' = Inr (QueryBalance ''z'')
   \<and> parse_ai_prompt ''balance of xyz'' = Inr (QueryBalance ''xyz'')"
  by code_simp

section \<open>The income ledger\<close>


lemma get_amount_stamp': "get_amount (stamp c) = get_amount (snd c)"
  by (simp add: stamp_def get_amount_def)





lemma map_get_amount_stamp: "map get_amount (map stamp calls) = map (\<lambda>c. get_amount (snd c)) calls"
  by (simp add: get_amount_stamp')




lemma last_n_split: "\<exists>older. xs = older @ last_n n xs \<and> length (last_n n xs) = min n (length xs)"
proof (cases "length xs \<le> n")
  case True
  then show ?thesis by (simp add: last_n_def)
next
  case False
  then have "xs = take (length xs - n) xs @ last_n n xs" by (simp add: last_n_def)
  moreover have "length (last_n n xs) = min n (length xs)" using False by (simp add: last_n_def)
  ultimately show ?thesis by blast
qed

text \<open>
  C7, as amended. When the ledger file holds a log, the report's
  \<open>recent_transactions\<close> are the last \<open>min(10, transaction_count)\<close> stored transactions
  in their stored order: the stored list is some older part followed by them.
\<close>

theorem report_recent_last_ten:
  assumes "ledger_file w = Content ledger"
  shows "\<exists>r recent older. get_income_report w = Inr r
           \<and> rp_transaction_count r = length (transactions ledger)
           \<and> recent_transactions r = Some recent
           \<and> length recent = min 10 (rp_transaction_count r)
           \<and> transactions ledger = older @ recent"
proof -
  obtain older where o: "transactions ledger = older @ last_n 10 (transactions ledger)"
    "length (last_n 10 (transactions ledger)) = min 10 (length (transactions ledger))"
    using last_n_split[of "transactions ledger" 10] by blast
  obtain r where r: "get_income_report w = Inr r"
    "rp_transaction_count r = length (transactions ledger)"
    "recent_transactions r = Some (last_n 10 (transactions ledger))"
    using assms by (simp add: get_income_report_def)
  have "length (last_n 10 (transactions ledger)) = min 10 (rp_transaction_count r)"
    using o(2) r(2) by simp
  then show ?thesis using r o(1) by blast
qed

theorem report_recent_last_ten_witness:
  "\<exists>r recent older.
     get_income_report
       \<lparr>config_file = Absent,
        ledger_file = Content \<lparr>transactions = replicate 12
            \<lparr>tx_type = Some ''staking'', tx_amount = Some (PyInt 1), tx_wallet = None,
             tx_dev_vault = None, tx_status = None, tx_timestamp = None\<rparr>,
          total_income = PyInt 12\<rparr>\<rparr> = Inr r
     \<and> rp_transaction_count r = 12
     \<and> recent_transactions r = Some recent
     \<and> length recent = 10
     \<and> replicate 12 \<lparr>tx_type = Some ''staking'', tx_amount = Some (PyInt 1), tx_wallet = None,
             tx_dev_vault = None, tx_status = None, tx_timestamp = None\<rparr> = older @ recent"
proof -
  let ?txs = "replicate 12 \<lparr>tx_type = Some ''staking'', tx_amount = Some (PyInt 1), tx_wallet = None,
             tx_dev_vault = None, tx_status = None, tx_timestamp = None\<rparr>"
  let ?ledger = "\<lparr>transactions = ?txs, total_income = PyInt 12\<rparr>"
  let ?w = "\<lparr>config_file = Absent, ledger_file = Content ?ledger\<rparr>"
  have h: "ledger_file ?w = Content ?ledger" by simp
  from report_recent_last_ten[OF h] obtain r recent older where
    a: "get_income_report ?w = Inr r" "rp_transaction_count r = length (transactions ?ledger)"
       "recent_transactions r = Some recent" "length recent = min 10 (rp_transaction_count r)"
       "transactions ?ledger = older @ recent"
    by blast
  have c: "rp_transaction_count r = 12" using a(2) by simp
  have "length recent = 10" using a(4) c by simp
  moreover have "?txs = older @ recent" using a(5) by simp
  ultimately show ?thesis using a(1,3) c by blast
qed

text \<open>
  Counterexample to C7 as stated: with no ledger file the returned report has the key
  \<open>transactions\<close> and no key \<open>recent_transactions\<close>.
\<close>

theorem report_recent_counterexample:
  "get_income_report \<lparr>config_file = Absent, ledger_file = Absent\<rparr>
     = Inr \<lparr> rp_total_income = PyInt 0, rp_transaction_count = 0, rp_transactions = Some [],
             recent_transactions = None, rp_strategies = None \<rparr>"
  by (simp add: get_income_report_def)

section \<open>The operation stubs\<close>

lemma transfer_sol_ok:
  assumes "config_file w = Content config" and "devVaultWallet config = Some dev_vault"
    and "passiveIncomePercentage config = Some p"
    and "py_div p (PyInt 100) = Inr share" and "py_mul a share = Inr fee"
  shows "\<exists>r. transfer_sol rt from_wallet to_wallet a private_key network w = (Inr r, w)
           \<and> dev_vault_amount r = fee"
  using assms by (simp add: transfer_sol_def load_config_def)



text \<open>
  C9, as amended. With a configuration that has both keys, \<open>transfer_sol\<close> returns a
  result unless the arithmetic raises, and its \<open>dev_vault_amount\<close> is
  \<open>amount * (passiveIncomePercentage / 100)\<close> in Python's arithmetic: the quotient is
  computed and rounded first, then the product.
\<close>

theorem transfer_fee:
  assumes "config_file w = Content config" and "devVaultWallet config = Some dev_vault"
    and "passiveIncomePercentage config = Some p"
  shows "case py_div p (PyInt 100) of
           Inl e \<Rightarrow> transfer_sol rt from_wallet to_wallet a private_key network w = (Inl e, w)
         | Inr share \<Rightarrow>
             (case py_mul a share of
                Inl e \<Rightarrow> transfer_sol rt from_wallet to_wallet a private_key network w = (Inl e, w)
              | Inr fee \<Rightarrow>
                  (\<exists>r. transfer_sol rt from_wallet to_wallet a private_key network w = (Inr r, w)
                       \<and> dev_vault_amount r = fee))"
  using assms by (simp add: transfer_sol_def load_config_def split: sum.splits)

theorem transfer_fee_witness:
  "\<exists>r. transfer_sol \<lparr>py_hash = (\<lambda>s. int (length s)), str_num = (\<lambda>x. ''3.0''), str_int = (\<lambda>i. ''7'')\<rparr>
          ''alice'' ''bob'' (PyFloat (Finite 3)) ''key'' ''devnet''
          \<lparr>config_file = Content \<lparr>devVaultWallet = Some ''vault'', passiveIncomePercentage = Some (PyInt 10)\<rparr>,
           ledger_file = Absent\<rparr>
       = (Inr r, \<lparr>config_file = Content \<lparr>devVaultWallet = Some ''vault'', passiveIncomePercentage = Some (PyInt 10)\<rparr>,
           ledger_file = Absent\<rparr>)
     \<and> dev_vault_amount r = PyFloat (Finite (1351079888211149 / 4503599627370496))"
proof -
  let ?cfg = "\<lparr>devVaultWallet = Some ''vault'', passiveIncomePercentage = Some (PyInt 10)\<rparr>"
  let ?w = "\<lparr>config_file = Content ?cfg, ledger_file = Absent\<rparr>"
  have h1: "config_file ?w = Content ?cfg" by simp
  have h2: "devVaultWallet ?cfg = Some ''vault''" by simp
  have h3: "passiveIncomePercentage ?cfg = Some (PyInt 10)" by simp
  have d: "py_div (PyInt 10) (PyInt 100) = Inr (PyFloat (Finite (3602879701896397 / 36028797018963968)))"
    by code_simp
  have m: "py_mul (PyFloat (Finite 3)) (PyFloat (Finite (3602879701896397 / 36028797018963968)))
             = Inr (PyFloat (Finite (1351079888211149 / 4503599627370496)))"
    by code_simp
  from transfer_fee[OF h1 h2 h3, of _ "''alice''" "''bob''" "PyFloat (Finite 3)" "''key''" "''devnet''"] d m
  show ?thesis by simp
qed

text \<open>
  Counterexample to C9 as stated: for the amount 3.0 and the percentage 10 the
  \<open>dev_vault_amount\<close> is 0.30000000000000004, and \<open>amount * percentage / 100\<close> is 0.3.
\<close>

theorem transfer_fee_counterexample:
  "map_sum id dev_vault_amount
     (fst (transfer_sol \<lparr>py_hash = (\<lambda>s. int (length s)), str_num = (\<lambda>x. ''3.0''), str_int = (\<lambda>i. ''7'')\<rparr>
          ''alice'' ''bob'' (PyFloat (Finite 3)) ''key'' ''devnet''
          \<lparr>config_file = Content \<lparr>devVaultWallet = Some ''vault'', passiveIncomePercentage = Some (PyInt 10)\<rparr>,
           ledger_file = Absent\<rparr>))
     = Inr (PyFloat (Finite (1351079888211149 / 4503599627370496)))
   \<and> py_mul (PyFloat (Finite 3)) (PyInt 10) = Inr (PyFloat (Finite 30))
   \<and> py_div (PyFloat (Finite 30)) (PyInt 100) = Inr (PyFloat (Finite (5404319552844595 / 18014398509481984)))
   \<and> \<not> py_eq (PyFloat (Finite (1351079888211149 / 4503599627370496)))
              (PyFloat (Finite (5404319552844595 / 18014398509481984)))"
  by code_simp

text \<open>
  C10. Within one process (one \<open>hash\<close>), two transfers whose concatenations
  \<open>from_wallet + to_wallet + str(amount)\<close> are equal get the same signature.
\<close>

theorem transfer_signature_concat:
  assumes "from1 @ to1 @ str_num rt a1 = from2 @ to2 @ str_num rt a2"
    and "transfer_sol rt from1 to1 a1 key1 net1 w1 = (Inr r1, w1')"
    and "transfer_sol rt from2 to2 a2 key2 net2 w2 = (Inr r2, w2')"
  shows "tr_signature r1 = tr_signature r2"
  using assms by (auto simp add: transfer_sol_def split: sum.splits option.splits)

theorem transfer_signature_concat_witness:
  "\<exists>r1 r2.
     transfer_sol \<lparr>py_hash = (\<lambda>s. int (length s)), str_num = (\<lambda>x. ''1.0''), str_int = (\<lambda>i. ''7'')\<rparr>
          ''ab'' ''c'' (PyFloat (Finite 1)) ''key'' ''devnet''
          \<lparr>config_file = Content \<lparr>devVaultWallet = Some ''vault'', passiveIncomePercentage = Some (PyInt 10)\<rparr>,
           ledger_file = Absent\<rparr>
       = (Inr r1, \<lparr>config_file = Content \<lparr>devVaultWallet = Some ''vault'', passiveIncomePercentage = Some (PyInt 10)\<rparr>,
           ledger_file = Absent\<rparr>)
   \<and> transfer_sol \<lparr>py_hash = (\<lambda>s. int (length s)), str_num = (\<lambda>x. ''1.0''), str_int = (\<lambda>i. ''7'')\<rparr>
          ''a'' ''bc'' (PyFloat (Finite 1)) ''key'' ''devnet''
          \<lparr>config_file = Content \<lparr>devVaultWallet = Some ''vault'', passiveIncomePercentage = Some (PyInt 10)\<rparr>,
           ledger_file = Absent\<rparr>
       = (Inr r2, \<lparr>config_file = Content \<lparr>devVaultWallet = Some ''vault'', passiveIncomePercentage = Some (PyInt 10)\<rparr>,
           ledger_file = Absent\<rparr>)
   \<and> tr_signature r1 = tr_signature r2"
proof -
  let ?rt = "\<lparr>py_hash = (\<lambda>s. int (length s)), str_num = (\<lambda>x::pynum. ''1.0''), str_int = (\<lambda>i::int. ''7'')\<rparr>"
  let ?cfg = "\<lparr>devVaultWallet = Some ''vault'', passiveIncomePercentage = Some (PyInt 10)\<rparr>"
  let ?w = "\<lparr>config_file = Content ?cfg, ledger_file = Absent\<rparr>"
  have h1: "config_file ?w = Content ?cfg" by simp
  have h2: "devVaultWallet ?cfg = Some ''vault''" by simp
  have h3: "passiveIncomePercentage ?cfg = Some (PyInt 10)" by simp
  have d: "py_div (PyInt 10) (PyInt 100) = Inr (PyFloat (Finite (3602879701896397 / 36028797018963968)))"
    by code_simp
  have m: "py_mul (PyFloat (Finite 1)) (PyFloat (Finite (3602879701896397 / 36028797018963968)))
             = Inr (PyFloat (Finite (3602879701896397 / 36028797018963968)))"
    by code_simp
  obtain r1 where r1: "transfer_sol ?rt ''ab'' ''c'' (PyFloat (Finite 1)) ''key'' ''devnet'' ?w = (Inr r1, ?w)"
    using transfer_sol_ok[OF h1 h2 h3 d m] by blast
  obtain r2 where r2: "transfer_sol ?rt ''a'' ''bc'' (PyFloat (Finite 1)) ''key'' ''devnet'' ?w = (Inr r2, ?w)"
    using transfer_sol_ok[OF h1 h2 h3 d m] by blast
  have c: "''ab'' @ ''c'' @ str_num ?rt (PyFloat (Finite 1)) = ''a'' @ ''bc'' @ str_num ?rt (PyFloat (Finite 1))" by simp
  from transfer_signature_concat[OF c r1 r2] r1 r2 show ?thesis by blast
qed

end
